theory Spec2Isabelle
  imports Complex_Main "HOL-Library.AList"
begin

section \<open>Python values\<close>

text \<open>
  A Python float (IEEE double) is a finite number, an infinity or NaN. Only the order
  comparisons of the catalog filter look inside a float; every ordered comparison with
  NaN is false.
\<close>

datatype pyfloat = Fin real | PInf | NInf | NaN

fun float_ge :: "pyfloat \<Rightarrow> real \<Rightarrow> bool" where
  "float_ge (Fin x) b = (b \<le> x)"
| "float_ge PInf b = True"
| "float_ge NInf b = False"
| "float_ge NaN b = False"

fun float_le :: "pyfloat \<Rightarrow> real \<Rightarrow> bool" where
  "float_le (Fin x) b = (x \<le> b)"
| "float_le PInf b = False"
| "float_le NInf b = True"
| "float_le NaN b = False"

text \<open>
  A catalog timestamp is written as the catalog writes it, the 14-digit number
  YYYYMMDDHHMMSS; on valid dates the numeric order is the chronological order.
  \<open>None\<close> is pandas' NaT, which compares false with everything.
\<close>

type_synonym datetime = nat

fun date_ge :: "datetime option \<Rightarrow> datetime \<Rightarrow> bool" where
  "date_ge None b = False"
| "date_ge (Some d) b = (b \<le> d)"

fun date_le :: "datetime option \<Rightarrow> datetime \<Rightarrow> bool" where
  "date_le None b = False"
| "date_le (Some d) b = (d \<le> b)"


section \<open>Parameters and the catalog filter (data.py, lines 14-17 and 71-75)\<close>

record parameters =
  lat_min :: real
  lat_max :: real
  lon_min :: real
  lon_max :: real
  start_date :: datetime
  end_date :: datetime

text \<open>
  The strings "2023-03-01" and "2023-03-31" are coerced by the comparison with a
  datetime column to the timestamps at midnight of those days.
\<close>

definition PARAMETERS :: parameters where
  "PARAMETERS = \<lparr> lat_min = -5, lat_max = 5, lon_min = 60, lon_max = 80,
     start_date = 20230301000000, end_date = 20230331000000 \<rparr>"

text \<open>
  A catalog row after line 69. The code reads the columns \<open>file\<close> (here \<open>file_path\<close>), \<open>date\<close>,
  \<open>latitude\<close> and \<open>longitude\<close>; the other columns of the index are carried along in
  the extension of the record.
\<close>

record catalog_row =
  file_path :: string
  date :: "datetime option"
  latitude :: pyfloat
  longitude :: pyfloat

definition filtered ::
  "parameters \<Rightarrow> 'a catalog_row_scheme list \<Rightarrow> 'a catalog_row_scheme list" where
  "filtered p df_index =
     filter (\<lambda>row.
        float_ge (latitude row) (lat_min p) \<and> float_le (latitude row) (lat_max p) \<and>
        float_ge (longitude row) (lon_min p) \<and> float_le (longitude row) (lon_max p) \<and>
        date_ge (date row) (start_date p) \<and> date_le (date row) (end_date p))
      df_index"

text \<open>
  The selection as the specification words it: the latitude lies in the closed interval
  of the latitude bounds, the longitude in that of the longitude bounds, the date in
  that of the date bounds.
\<close>

fun in_closed_interval :: "real \<Rightarrow> real \<Rightarrow> pyfloat \<Rightarrow> bool" where
  "in_closed_interval lo hi (Fin x) = (lo \<le> x \<and> x \<le> hi)"
| "in_closed_interval lo hi PInf = False"
| "in_closed_interval lo hi NInf = False"
| "in_closed_interval lo hi NaN = False"

fun in_date_range :: "datetime \<Rightarrow> datetime \<Rightarrow> datetime option \<Rightarrow> bool" where
  "in_date_range lo hi None = False"
| "in_date_range lo hi (Some d) = (lo \<le> d \<and> d \<le> hi)"

definition spec_selected :: "parameters \<Rightarrow> 'a catalog_row_scheme \<Rightarrow> bool" where
  "spec_selected p row =
     (in_closed_interval (lat_min p) (lat_max p) (latitude row) \<and>
      in_closed_interval (lon_min p) (lon_max p) (longitude row) \<and>
      in_date_range (start_date p) (end_date p) (date row))"


section \<open>The local machine and the file server\<close>

text \<open>
  The part of the machine the script touches: the local files by path (their bytes) and
  the lines printed so far. \<open>os.path.exists\<close> is membership in the domain of \<open>files\<close>.
\<close>

record world =
  files :: "string \<rightharpoonup> string"
  stdout :: "string list"

definition print_line :: "string \<Rightarrow> 'a world_scheme \<Rightarrow> 'a world_scheme" where
  "print_line s w = w\<lparr>stdout := stdout w @ [s]\<rparr>"

definition path_exists :: "'a world_scheme \<Rightarrow> string \<Rightarrow> bool" where
  "path_exists w p = (files w p \<noteq> None)"

text \<open>
  What one run of the body of \<open>download_file_ftp\<close> meets, for a URL and a destination:
  \<^item> \<open>Refused e\<close>: an exception \<open>e\<close> before the destination is opened (URL parsing,
    connection, login, change of directory, or the \<open>open\<close> itself);
  \<^item> \<open>Aborted written e\<close>: the destination has been opened for writing and \<open>written\<close>
    bytes (possibly none) have been written when the transfer raises \<open>e\<close>;
  \<^item> \<open>Complete content\<close>: the transfer ends and the destination holds \<open>content\<close>.
\<close>

datatype transfer = Refused string | Aborted string string | Complete string

type_synonym ftp = "string \<Rightarrow> string \<Rightarrow> transfer"

fun is_complete :: "transfer \<Rightarrow> bool" where
  "is_complete (Complete content) = True"
| "is_complete (Refused e) = False"
| "is_complete (Aborted written e) = False"

text \<open>The bytes a transfer leaves at a destination that did not exist before.\<close>

fun left_behind :: "transfer \<Rightarrow> string option" where
  "left_behind (Refused e) = None"
| "left_behind (Aborted written e) = Some written"
| "left_behind (Complete content) = Some content"

definition FTP_BASE_URL :: string where
  "FTP_BASE_URL = ''ftp://ftp.ifremer.fr/ifremer/argo/''"

definition download_folder :: string where
  "download_folder = ''argo_data_downloads''"

text \<open>
  \<open>os.path.basename\<close> and \<open>os.path.join\<close> (of two components) on a POSIX system.
  \<open>urljoin\<close> resolves a reference against the base; for the relative paths of the catalog
  (no scheme, no leading slash, no dot segments) against a base that ends in a slash the
  result is the concatenation, which is what the model takes.
\<close>

definition basename :: "string \<Rightarrow> string" where
  "basename p = rev (takeWhile (\<lambda>c. c \<noteq> CHR ''/'') (rev p))"

definition path_join :: "string \<Rightarrow> string \<Rightarrow> string" where
  "path_join a b =
     (if b \<noteq> [] \<and> hd b = CHR ''/'' then b
      else if a = [] \<or> last a = CHR ''/'' then a @ b
      else a @ ''/'' @ b)"

definition urljoin :: "string \<Rightarrow> string \<Rightarrow> string" where
  "urljoin base ref = base @ ref"


section \<open>The file retriever (data.py, lines 28-45 and 81-96)\<close>

definition download_file_ftp ::
  "ftp \<Rightarrow> string \<Rightarrow> string \<Rightarrow> 'a world_scheme \<Rightarrow> bool \<times> 'a world_scheme" where
  "download_file_ftp server file_url dest_path w =
     (case server file_url dest_path of
        Refused e \<Rightarrow>
          (False, print_line (''  -> FTP Download Failed for '' @ file_url @ '': '' @ e) w)
      | Aborted written e \<Rightarrow>
          (False, print_line (''  -> FTP Download Failed for '' @ file_url @ '': '' @ e)
                    (w\<lparr>files := (files w)(dest_path \<mapsto> written)\<rparr>))
      | Complete content \<Rightarrow>
          (True, w\<lparr>files := (files w)(dest_path \<mapsto> content)\<rparr>))"

definition fname_of :: "'a catalog_row_scheme \<Rightarrow> string" where
  "fname_of row = basename (file_path row)"

definition file_url_of :: "'a catalog_row_scheme \<Rightarrow> string" where
  "file_url_of row = urljoin FTP_BASE_URL (file_path row)"

definition dest_of :: "'a catalog_row_scheme \<Rightarrow> string" where
  "dest_of row = path_join download_folder (fname_of row)"

text \<open>The body of the loop of lines 82-96, on the machine and the list built so far.\<close>

definition retrieve_entry ::
  "ftp \<Rightarrow> 'a catalog_row_scheme \<Rightarrow> 'b world_scheme \<times> string list
     \<Rightarrow> 'b world_scheme \<times> string list" where
  "retrieve_entry server row st =
     (case st of (w, downloaded_files) \<Rightarrow>
        (let fname = fname_of row; file_url = file_url_of row; dest = dest_of row
         in if \<not> path_exists w dest then
              (case download_file_ftp server file_url dest
                      (print_line (''Downloading: '' @ fname) w) of
                 (ok, w') \<Rightarrow>
                   if ok then (w', downloaded_files @ [dest]) else (w', downloaded_files))
            else (print_line (''Already exists: '' @ fname) w, downloaded_files @ [dest])))"

fun retrieve_all ::
  "ftp \<Rightarrow> 'a catalog_row_scheme list \<Rightarrow> 'b world_scheme \<times> string list
     \<Rightarrow> 'b world_scheme \<times> string list" where
  "retrieve_all server [] st = st"
| "retrieve_all server (row # rows) st = retrieve_all server rows (retrieve_entry server row st)"

text \<open>One run of step E: the list starts empty (line 81).\<close>

definition step_E ::
  "ftp \<Rightarrow> 'a catalog_row_scheme list \<Rightarrow> 'b world_scheme \<Rightarrow> 'b world_scheme \<times> string list" where
  "step_E server rows w = retrieve_all server rows (w, [])"


text \<open>The text of the exception a transfer raises (none when it completes).\<close>

fun failure_text :: "transfer \<Rightarrow> string" where
  "failure_text (Refused e) = e"
| "failure_text (Aborted written e) = e"
| "failure_text (Complete content) = []"

text \<open>
  The entries the specification wants in the downstream list: those whose destination
  is present on the machine \<open>w\<close>, and those whose download completes.
\<close>

definition retrieved_or_present :: "ftp \<Rightarrow> 'b world_scheme \<Rightarrow> 'a catalog_row_scheme \<Rightarrow> bool" where
  "retrieved_or_present server w row =
     (path_exists w (dest_of row) \<or> is_complete (server (file_url_of row) (dest_of row)))"

text \<open>Two catalog entries of different floats, for the worked examples.\<close>

definition example_row :: catalog_row where
  "example_row = \<lparr>file_path = ''aoml/13857/profiles/R13857_001.nc'',
     date = Some 20230315000000, latitude = Fin 0, longitude = Fin 70\<rparr>"

definition example_other_row :: catalog_row where
  "example_other_row = \<lparr>file_path = ''coriolis/6901/profiles/R6901_002.nc'',
     date = Some 20230316000000, latitude = Fin 1, longitude = Fin 71\<rparr>"


section \<open>Profile datasets\<close>

text \<open>
  What \<open>xr.open_dataset\<close> hands to the script: named dimensions and named variables.
  The value array of a variable has no, one or two axes; its elements are byte strings
  (character data such as the quality-control flags and the platform number) or
  numbers. The arrays are taken as read: once the dataset is open, getting the values of
  a variable that exists does not fail.
\<close>

datatype error = KeyError | ValueError | IndexError | TypeError

datatype scalar = Bytes string | Num pyfloat

datatype ndarray = Arr0 scalar | Arr1 "scalar list" | Arr2 "scalar list list"

record dataset =
  dims :: "string \<rightharpoonup> nat"
  variables :: "string \<rightharpoonup> ndarray"

definition and_then :: "error + 'a \<Rightarrow> ('a \<Rightarrow> error + 'b) \<Rightarrow> error + 'b" where
  "and_then m f = (case m of Inl e \<Rightarrow> Inl e | Inr x \<Rightarrow> f x)"

text \<open>\<open>ds[name].values\<close> and \<open>ds.dims[name]\<close>: a missing name raises KeyError.\<close>

definition getitem :: "dataset \<Rightarrow> string \<Rightarrow> error + ndarray" where
  "getitem ds name = (case variables ds name of None \<Rightarrow> Inl KeyError | Some a \<Rightarrow> Inr a)"

definition getdim :: "dataset \<Rightarrow> string \<Rightarrow> error + nat" where
  "getdim ds name = (case dims ds name of None \<Rightarrow> Inl KeyError | Some n \<Rightarrow> Inr n)"

text \<open>\<open>a.item()\<close>: the only element of an array of size one, ValueError otherwise.\<close>

fun item :: "ndarray \<Rightarrow> error + scalar" where
  "item (Arr0 x) = Inr x"
| "item (Arr1 [x]) = Inr x"
| "item (Arr2 [[x]]) = Inr x"
| "item a = Inl ValueError"

text \<open>
  \<open>float(x)\<close> of an element. A number converts to itself. Python parses a byte string as
  a numeral; the model holds character data to be no numeral (ValueError).
\<close>

fun py_float :: "scalar \<Rightarrow> error + pyfloat" where
  "py_float (Num x) = Inr x"
| "py_float (Bytes s) = Inl ValueError"

text \<open>
  \<open>float(a[i])\<close>: on a vector the element; on a matrix \<open>a[i]\<close> is a row, which \<open>float\<close>
  converts only when it has one element; a scalar array cannot be indexed.
\<close>

fun float_at1 :: "ndarray \<Rightarrow> nat \<Rightarrow> error + pyfloat" where
  "float_at1 (Arr0 x) i = Inl IndexError"
| "float_at1 (Arr1 xs) i = (if i < length xs then py_float (xs ! i) else Inl IndexError)"
| "float_at1 (Arr2 rows) i =
     (if i < length rows
      then (case rows ! i of [x] \<Rightarrow> py_float x | r \<Rightarrow> Inl TypeError)
      else Inl IndexError)"

text \<open>\<open>a[i, j]\<close>: two indices need two axes.\<close>

fun at2 :: "ndarray \<Rightarrow> nat \<Rightarrow> nat \<Rightarrow> error + scalar" where
  "at2 (Arr2 rows) i j =
     (if i < length rows \<and> j < length (rows ! i) then Inr (rows ! i ! j) else Inl IndexError)"
| "at2 (Arr1 xs) i j = Inl IndexError"
| "at2 (Arr0 x) i j = Inl IndexError"

text \<open>
  \<open>pd.to_datetime(values, origin="1950-01-01", unit="D")\<close> wants a vector of numbers,
  the day offsets from the origin. A timestamp is represented by its day offset (NaN is
  NaT); the range of dates pandas can represent is not modelled.
\<close>

fun to_timestamp :: "scalar \<Rightarrow> error + pyfloat" where
  "to_timestamp (Num (Fin d)) = Inr (Fin d)"
| "to_timestamp (Num NaN) = Inr NaN"
| "to_timestamp (Num PInf) = Inl ValueError"
| "to_timestamp (Num NInf) = Inl ValueError"
| "to_timestamp (Bytes s) = Inl ValueError"

fun collect :: "(error + 'a) list \<Rightarrow> error + 'a list" where
  "collect [] = Inr []"
| "collect (m # ms) = and_then m (\<lambda>x. and_then (collect ms) (\<lambda>xs. Inr (x # xs)))"

fun to_datetime :: "ndarray \<Rightarrow> error + pyfloat list" where
  "to_datetime (Arr1 xs) = collect (map to_timestamp xs)"
| "to_datetime (Arr0 x) = Inl TypeError"
| "to_datetime (Arr2 rows) = Inl TypeError"

definition nth_or_raise :: "'a list \<Rightarrow> nat \<Rightarrow> error + 'a" where
  "nth_or_raise xs i = (if i < length xs then Inr (xs ! i) else Inl IndexError)"

text \<open>\<open>str.lower\<close> on the ASCII letters (the model's strings are byte strings).\<close>

definition lower_char :: "char \<Rightarrow> char" where
  "lower_char c =
     (case map_of (zip ''ABCDEFGHIJKLMNOPQRSTUVWXYZ'' ''abcdefghijklmnopqrstuvwxyz'') c of
        None \<Rightarrow> c
      | Some l \<Rightarrow> l)"

definition lower :: "string \<Rightarrow> string" where
  "lower s = map lower_char s"


section \<open>The profile flattener (data.py, lines 101-129)\<close>

text \<open>
  The values a record holds: the float identifier \<open>str(x)\<close> of the platform number
  \<open>x\<close>, a timestamp, or a float. A record is a Python dictionary in insertion order:
  an association list with distinct keys, \<open>record[k] = v\<close> being \<open>AList.update\<close>, which
  replaces the value of a key that is there and appends a new key at the end.
\<close>

datatype pyvalue = StrOf scalar | Date pyfloat | Float pyfloat

type_synonym observation = "(string \<times> pyvalue) list"

type_synonym dataframe = "observation list"

text \<open>Lines 108-112: what is read from the dataset before the loops.\<close>

record header =
  float_id :: pyvalue
  times :: "pyfloat list"
  lat :: ndarray
  lon :: ndarray
  depth :: ndarray

definition read_header :: "dataset \<Rightarrow> error + header" where
  "read_header ds =
     and_then (getitem ds ''PLATFORM_NUMBER'') (\<lambda>pn.
     and_then (item pn) (\<lambda>x.
     and_then (getitem ds ''JULD'') (\<lambda>juld.
     and_then (to_datetime juld) (\<lambda>ts.
     and_then (getitem ds ''LATITUDE'') (\<lambda>la.
     and_then (getitem ds ''LONGITUDE'') (\<lambda>lo.
     and_then (getitem ds ''PRES'') (\<lambda>pres.
       Inr \<lparr>float_id = StrOf x, times = ts, lat = la, lon = lo, depth = pres\<rparr>)))))))"

text \<open>Lines 117-120: the dictionary display, its entries evaluated in order.\<close>

definition new_record :: "header \<Rightarrow> nat \<Rightarrow> nat \<Rightarrow> error + observation" where
  "new_record h i j =
     and_then (nth_or_raise (times h) i) (\<lambda>t.
     and_then (float_at1 (lat h) i) (\<lambda>la.
     and_then (float_at1 (lon h) i) (\<lambda>lo.
     and_then (and_then (at2 (depth h) i j) py_float) (\<lambda>d.
       Inr [(''float_id'', float_id h), (''date'', Date t), (''latitude'', Float la),
            (''longitude'', Float lo), (''depth'', Float d)]))))"

text \<open>\<open>x in [b'1', b'2']\<close>\<close>

definition is_accepted_code :: "scalar \<Rightarrow> bool" where
  "is_accepted_code x = (x = Bytes ''1'' \<or> x = Bytes ''2'')"

text \<open>\<open>float(ds[var].values[i, j])\<close>\<close>

definition read_value :: "dataset \<Rightarrow> string \<Rightarrow> nat \<Rightarrow> nat \<Rightarrow> error + pyfloat" where
  "read_value ds var i j = and_then (and_then (getitem ds var) (\<lambda>a. at2 a i j)) py_float"

text \<open>Lines 121-124: the loop over the requested variables, on the record built so far.\<close>

fun add_variables ::
  "dataset \<Rightarrow> nat \<Rightarrow> nat \<Rightarrow> string list \<Rightarrow> observation \<Rightarrow> error + observation" where
  "add_variables ds i j [] record = Inr record"
| "add_variables ds i j (var # vars) record =
     (let qc_var = var @ ''_QC'' in
      case variables ds qc_var of
        None \<Rightarrow> add_variables ds i j vars record
      | Some qc \<Rightarrow>
          (case at2 qc i j of
             Inl e \<Rightarrow> Inl e
           | Inr flag \<Rightarrow>
               if is_accepted_code flag then
                 (case read_value ds var i j of
                    Inl e \<Rightarrow> Inl e
                  | Inr v \<Rightarrow>
                      add_variables ds i j vars (AList.update (lower var) (Float v) record))
               else add_variables ds i j vars record))"

text \<open>Lines 117-127: the body of the inner loop, on the rows collected so far.\<close>

definition level_body ::
  "dataset \<Rightarrow> header \<Rightarrow> string list \<Rightarrow> nat \<Rightarrow> nat \<Rightarrow> dataframe \<Rightarrow> error + dataframe" where
  "level_body ds h vars_to_keep i j rows =
     and_then (new_record h i j) (\<lambda>record0.
     and_then (add_variables ds i j vars_to_keep record0) (\<lambda>record.
       Inr (if length record > 5 then rows @ [record] else rows)))"

fun for_levels ::
  "dataset \<Rightarrow> header \<Rightarrow> string list \<Rightarrow> nat \<Rightarrow> nat list \<Rightarrow> dataframe \<Rightarrow> error + dataframe" where
  "for_levels ds h vars_to_keep i [] rows = Inr rows"
| "for_levels ds h vars_to_keep i (j # js) rows =
     (case level_body ds h vars_to_keep i j rows of
        Inl e \<Rightarrow> Inl e
      | Inr rows' \<Rightarrow> for_levels ds h vars_to_keep i js rows')"

text \<open>
  The outer loop; \<open>range(ds.dims['N_LEVELS'])\<close> is evaluated anew for each profile.
\<close>

fun for_profiles ::
  "dataset \<Rightarrow> header \<Rightarrow> string list \<Rightarrow> nat list \<Rightarrow> dataframe \<Rightarrow> error + dataframe" where
  "for_profiles ds h vars_to_keep [] rows = Inr rows"
| "for_profiles ds h vars_to_keep (i # is) rows =
     (case getdim ds ''N_LEVELS'' of
        Inl e \<Rightarrow> Inl e
      | Inr n_levels \<Rightarrow>
          (case for_levels ds h vars_to_keep i [0..<n_levels] rows of
             Inl e \<Rightarrow> Inl e
           | Inr rows' \<Rightarrow> for_profiles ds h vars_to_keep is rows'))"

text \<open>
  Lines 108-129 on an opened dataset. The data frame built from the rows is modelled by
  the list of the records themselves.
\<close>

definition flatten :: "dataset \<Rightarrow> string list \<Rightarrow> error + dataframe" where
  "flatten ds vars_to_keep =
     and_then (read_header ds) (\<lambda>h.
     and_then (getdim ds ''N_PROF'') (\<lambda>n_prof.
       for_profiles ds h vars_to_keep [0..<n_prof] []))"

definition vars_to_keep_default :: "string list" where
  "vars_to_keep_default = [''TEMP'', ''PSAL'']"

text \<open>
  \<open>xr.open_dataset\<close>: the file must exist, and its bytes must decode. The decoder of
  the library is a parameter of the model: it either raises (the exception's text) or
  returns the dataset.
\<close>

type_synonym decoder = "string \<Rightarrow> string + dataset"

definition open_dataset :: "decoder \<Rightarrow> 'a world_scheme \<Rightarrow> string \<Rightarrow> string + dataset" where
  "open_dataset netcdf w nc_path =
     (case files w nc_path of
        None \<Rightarrow> Inl ''No such file or directory''
      | Some bytes \<Rightarrow> netcdf bytes)"

text \<open>
  \<open>process_nc_file\<close>: only the opening is inside the \<open>try\<close>; an exception raised by the
  rest of the function leaves it (\<open>Inl\<close>).
\<close>

definition process_nc_file ::
  "decoder \<Rightarrow> string \<Rightarrow> string list \<Rightarrow> 'a world_scheme
     \<Rightarrow> 'a world_scheme \<times> (error + dataframe)" where
  "process_nc_file netcdf nc_path vars_to_keep w =
     (case open_dataset netcdf w nc_path of
        Inl e \<Rightarrow> (print_line (''Error opening '' @ nc_path @ '': '' @ e) w, Inr [])
      | Inr ds \<Rightarrow> (w, flatten ds vars_to_keep))"


section \<open>The flattener as the specification words it\<close>

definition mandatory_fields :: "string list" where
  "mandatory_fields = [''float_id'', ''date'', ''latitude'', ''longitude'', ''depth'']"

text \<open>
  The quality-control flag of a requested variable at a (profile, level) pair is one of
  the two accepted codes: the companion array exists and holds \<open>b'1'\<close> or \<open>b'2'\<close> there.
\<close>

definition accepted :: "dataset \<Rightarrow> string \<Rightarrow> nat \<Rightarrow> nat \<Rightarrow> bool" where
  "accepted ds var i j =
     (case variables ds (var @ ''_QC'') of
        None \<Rightarrow> False
      | Some qc \<Rightarrow> (case at2 qc i j of Inl e \<Rightarrow> False | Inr flag \<Rightarrow> is_accepted_code flag))"


text \<open>The fields of the accepted variables, in the order the variables are requested.\<close>

definition accepted_fields :: "dataset \<Rightarrow> string list \<Rightarrow> nat \<Rightarrow> nat \<Rightarrow> observation" where
  "accepted_fields ds vars i j =
     concat (map (\<lambda>var.
        if accepted ds var i j
        then (case read_value ds var i j of Inl e \<Rightarrow> [] | Inr x \<Rightarrow> [(lower var, Float x)])
        else []) vars)"


text \<open>The records a result holds: none when the function raised.\<close>

definition records_of :: "error + dataframe \<Rightarrow> dataframe" where
  "records_of result = (case result of Inl e \<Rightarrow> [] | Inr rows \<Rightarrow> rows)"

text \<open>
  A dataset on which lines 108-127 raise nothing, for \<open>n_prof\<close> profiles of \<open>n_levels\<close>
  levels: the two dimensions are declared; the platform number has exactly one element;
  the times are a vector of numbers (finite or NaN), latitude and longitude vectors of
  numbers, the pressure a matrix of numbers, all of the declared extent; and every
  requested variable that has a quality-control array has it as a matrix of the
  declared extent, together with a value array that is a matrix of numbers of that
  extent.
\<close>

fun is_num :: "scalar \<Rightarrow> bool" where
  "is_num (Num x) = True"
| "is_num (Bytes s) = False"

fun is_day_offset :: "scalar \<Rightarrow> bool" where
  "is_day_offset (Num (Fin d)) = True"
| "is_day_offset (Num NaN) = True"
| "is_day_offset (Num PInf) = False"
| "is_day_offset (Num NInf) = False"
| "is_day_offset (Bytes s) = False"

fun time_vector :: "nat \<Rightarrow> ndarray \<Rightarrow> bool" where
  "time_vector n (Arr1 xs) = (n \<le> length xs \<and> list_all is_day_offset xs)"
| "time_vector n (Arr0 x) = False"
| "time_vector n (Arr2 rows) = False"

fun float_vector :: "nat \<Rightarrow> ndarray \<Rightarrow> bool" where
  "float_vector n (Arr1 xs) = (n \<le> length xs \<and> list_all is_num (take n xs))"
| "float_vector n (Arr0 x) = False"
| "float_vector n (Arr2 rows) = False"


fun float_matrix :: "nat \<Rightarrow> nat \<Rightarrow> ndarray \<Rightarrow> bool" where
  "float_matrix n m (Arr2 rows) =
     (n \<le> length rows \<and>
      list_all (\<lambda>r. m \<le> length r \<and> list_all is_num (take m r)) (take n rows))"
| "float_matrix n m (Arr0 x) = False"
| "float_matrix n m (Arr1 xs) = False"

definition has :: "dataset \<Rightarrow> string \<Rightarrow> (ndarray \<Rightarrow> bool) \<Rightarrow> bool" where
  "has ds name P = (case variables ds name of None \<Rightarrow> False | Some a \<Rightarrow> P a)"


definition well_formed_header :: "dataset \<Rightarrow> nat \<Rightarrow> nat \<Rightarrow> bool" where
  "well_formed_header ds n_prof n_levels =
     (dims ds ''N_PROF'' = Some n_prof \<and> dims ds ''N_LEVELS'' = Some n_levels \<and>
      has ds ''PLATFORM_NUMBER'' (\<lambda>a. item a \<noteq> Inl ValueError) \<and>
      has ds ''JULD'' (time_vector n_prof) \<and>
      has ds ''LATITUDE'' (float_vector n_prof) \<and>
      has ds ''LONGITUDE'' (float_vector n_prof) \<and>
      has ds ''PRES'' (float_matrix n_prof n_levels))"


text \<open>
  The requested names a record can tell apart: their lower-case forms are pairwise
  different and none is the name of a mandatory field.
\<close>

definition requested :: "string list \<Rightarrow> bool" where
  "requested vars =
     (distinct (map lower vars) \<and> list_all (\<lambda>var. lower var \<notin> set mandatory_fields) vars)"

text \<open>
  A one-profile file with two levels, for the worked examples: at level 0 the
  temperature flag is 4 and the salinity flag 1; at level 1 both flags are 4.
\<close>

definition example_dataset :: dataset where
  "example_dataset = \<lparr>
     dims = [''N_PROF'' \<mapsto> 1, ''N_LEVELS'' \<mapsto> 2],
     variables = [
       ''PLATFORM_NUMBER'' \<mapsto> Arr1 [Bytes ''5904297''],
       ''JULD'' \<mapsto> Arr1 [Num (Fin 26736)],
       ''LATITUDE'' \<mapsto> Arr1 [Num (Fin 0)],
       ''LONGITUDE'' \<mapsto> Arr1 [Num (Fin 70)],
       ''PRES'' \<mapsto> Arr2 [[Num (Fin 5), Num (Fin 10)]],
       ''TEMP'' \<mapsto> Arr2 [[Num (Fin 28), Num (Fin 27)]],
       ''TEMP_QC'' \<mapsto> Arr2 [[Bytes ''4'', Bytes ''4'']],
       ''PSAL'' \<mapsto> Arr2 [[Num (Fin 35), Num (Fin 34)]],
       ''PSAL_QC'' \<mapsto> Arr2 [[Bytes ''1'', Bytes ''4'']]] \<rparr>"

text \<open>
  The same file without the salinity flags (and with temperature flag 1 at level 0), and
  without any quality-control array.
\<close>

definition example_without_psal_qc :: dataset where
  "example_without_psal_qc = \<lparr>
     dims = [''N_PROF'' \<mapsto> 1, ''N_LEVELS'' \<mapsto> 2],
     variables = [
       ''PLATFORM_NUMBER'' \<mapsto> Arr1 [Bytes ''5904297''],
       ''JULD'' \<mapsto> Arr1 [Num (Fin 26736)],
       ''LATITUDE'' \<mapsto> Arr1 [Num (Fin 0)],
       ''LONGITUDE'' \<mapsto> Arr1 [Num (Fin 70)],
       ''PRES'' \<mapsto> Arr2 [[Num (Fin 5), Num (Fin 10)]],
       ''TEMP'' \<mapsto> Arr2 [[Num (Fin 28), Num (Fin 27)]],
       ''TEMP_QC'' \<mapsto> Arr2 [[Bytes ''1'', Bytes ''4'']],
       ''PSAL'' \<mapsto> Arr2 [[Num (Fin 35), Num (Fin 34)]]] \<rparr>"

definition example_without_qc :: dataset where
  "example_without_qc = \<lparr>
     dims = [''N_PROF'' \<mapsto> 1, ''N_LEVELS'' \<mapsto> 2],
     variables = [
       ''PLATFORM_NUMBER'' \<mapsto> Arr1 [Bytes ''5904297''],
       ''JULD'' \<mapsto> Arr1 [Num (Fin 26736)],
       ''LATITUDE'' \<mapsto> Arr1 [Num (Fin 0)],
       ''LONGITUDE'' \<mapsto> Arr1 [Num (Fin 70)],
       ''PRES'' \<mapsto> Arr2 [[Num (Fin 5), Num (Fin 10)]],
       ''TEMP'' \<mapsto> Arr2 [[Num (Fin 28), Num (Fin 27)]],
       ''PSAL'' \<mapsto> Arr2 [[Num (Fin 35), Num (Fin 34)]]] \<rparr>"

text \<open>
  The companion quality-control array of a variable is in the dataset; and the keys a
  record may then have: the mandatory ones and the lower-case names of the requested
  variables whose companion array is present.
\<close>

definition qc_present :: "dataset \<Rightarrow> string \<Rightarrow> bool" where
  "qc_present ds var = (variables ds (var @ ''_QC'') \<noteq> None)"

definition known_keys :: "dataset \<Rightarrow> string list \<Rightarrow> observation \<Rightarrow> bool" where
  "known_keys ds vars r =
     (fst ` set r \<subseteq> set mandatory_fields \<union> lower ` {v \<in> set vars. qc_present ds v})"


section \<open>Processing the downloaded files (data.py, lines 131-147)\<close>

text \<open>
  The loop of lines 132-136. \<open>process_nc_file\<close> is called with its default variables;
  an exception that leaves it ends the script. A data frame built from a list of
  records is empty exactly when the list is.
\<close>

fun process_files ::
  "decoder \<Rightarrow> string list \<Rightarrow> 'a world_scheme \<times> dataframe list
     \<Rightarrow> 'a world_scheme \<times> (error + dataframe list)" where
  "process_files netcdf [] (w, all_rows) = (w, Inr all_rows)"
| "process_files netcdf (fpath # rest) (w, all_rows) =
     (case process_nc_file netcdf fpath vars_to_keep_default
             (print_line (''Processing: '' @ fpath) w) of
        (w', Inl e) \<Rightarrow> (w', Inl e)
      | (w', Inr df) \<Rightarrow>
          process_files netcdf rest (w', if df \<noteq> [] then all_rows @ [df] else all_rows))"

text \<open>
  The delimited file: a header line of column names, then one line per record with a
  cell per column, a missing cell where the record has no such key. The columns are the
  keys in order of first appearance.
\<close>

datatype cell = Text string | Value pyvalue | Missing

type_synonym csv_line = "cell list"

definition columns_of :: "dataframe \<Rightarrow> string list" where
  "columns_of df = rev (remdups (rev (concat (map (map fst) df))))"

definition rename_column :: "string \<Rightarrow> string" where
  "rename_column c =
     (if c = ''temp'' then ''temperature'' else if c = ''psal'' then ''salinity'' else c)"

definition rename_columns :: "dataframe \<Rightarrow> dataframe" where
  "rename_columns df = map (map (\<lambda>(k, v). (rename_column k, v))) df"

definition to_csv :: "dataframe \<Rightarrow> csv_line list" where
  "to_csv df =
     (let cols = columns_of df
      in map Text cols #
         map (\<lambda>r. map (\<lambda>c. case map_of r c of None \<Rightarrow> Missing | Some v \<Rightarrow> Value v) cols) df)"

text \<open>Decimal numerals, for the messages that print a count.\<close>

function str_nat :: "nat \<Rightarrow> string" where
  "str_nat n =
     (if n < 10 then [''0123456789'' ! n]
      else str_nat (n div 10) @ [''0123456789'' ! (n mod 10)])"
  by pat_completeness auto
termination
  by (relation "measure id") auto

declare str_nat.simps [simp del]


section \<open>The database and the loader (data.py, lines 152-179)\<close>

text \<open>
  The database server as the loader meets it: for each statement either the text of the
  \<open>mysql.connector.Error\<close> it raises or nothing, and the committed rows of the table
  \<open>argo_profiles\<close> (\<open>None\<close> while the table does not exist). A stored row is the
  synthetic identifier and the seven columns named in the \<open>LOAD DATA\<close> statement.
\<close>

datatype statement = Connect | CreateTable | Truncate | LoadData | Commit

type_synonym stored_row = "nat \<times> cell list"

record mysql =
  refuses :: "statement \<Rightarrow> string option"
  argo_profiles :: "stored_row list option"

record host = world +
  csv_file :: "csv_line list option"
  database :: mysql

text \<open>
  \<open>LOAD DATA ... IGNORE 1 ROWS (float_id, ..., salinity)\<close> into the truncated table:
  the first line is skipped, the fields of a line fill the seven columns from the left,
  and the identifiers count from 1.
\<close>

definition load_fields :: "csv_line \<Rightarrow> cell list" where
  "load_fields l = take 7 (l @ replicate (7 - length l) Missing)"

definition stored_rows :: "csv_line list \<Rightarrow> stored_row list" where
  "stored_rows ls = zip [1..<Suc (length ls)] (map load_fields ls)"

definition load_data :: "csv_line list \<Rightarrow> stored_row list" where
  "load_data file_lines = stored_rows (drop 1 file_lines)"

definition set_table :: "stored_row list \<Rightarrow> host \<Rightarrow> host" where
  "set_table rows w = w\<lparr>database := (database w)\<lparr>argo_profiles := Some rows\<rparr>\<rparr>"

definition mysql_error :: "string \<Rightarrow> host \<Rightarrow> host" where
  "mysql_error err w =
     print_line (''Error connecting to or loading data into MySQL: '' @ err) w"

definition close_connection :: "host \<Rightarrow> host" where
  "close_connection w = print_line ''MySQL connection closed.'' w"

text \<open>
  The statements in order; the first that raises is reported and ends the \<open>try\<close>.
  \<open>TRUNCATE\<close> commits by itself, so a failure after it leaves the table empty; the
  loaded rows are kept by the final \<open>commit\<close>. The connection is closed whenever it was
  opened.
\<close>

definition loader :: "host \<Rightarrow> host" where
  "loader w =
     (case refuses (database w) Connect of
        Some err \<Rightarrow> mysql_error err w
      | None \<Rightarrow> close_connection
         (case refuses (database w) CreateTable of
            Some err \<Rightarrow> mysql_error err w
          | None \<Rightarrow>
             (let w1 = (case argo_profiles (database w) of
                          None \<Rightarrow> set_table [] w
                        | Some rows \<Rightarrow> w)
              in case refuses (database w) Truncate of
                   Some err \<Rightarrow> mysql_error err w1
                 | None \<Rightarrow>
                    (let w2 = print_line ''Cleared existing data from argo_profiles table.''
                                (set_table [] w1)
                     in case refuses (database w) LoadData of
                          Some err \<Rightarrow> mysql_error err w2
                        | None \<Rightarrow>
                           (case csv_file w of
                              None \<Rightarrow> mysql_error ''File not found'' w2
                            | Some file_lines \<Rightarrow>
                               (case refuses (database w) Commit of
                                  Some err \<Rightarrow> mysql_error err w2
                                | None \<Rightarrow>
                                    print_line
                                      (''Successfully loaded '' @
                                       str_nat (length (load_data file_lines)) @
                                       '' rows into MySQL.'')
                                      (set_table (load_data file_lines) w2)))))))"

text \<open>
  Steps F and G after the downloads: the script ends by an exception that leaves
  \<open>process_nc_file\<close>, by \<open>exit()\<close> when nothing was processed, or after the loader.
\<close>

datatype outcome = Completed | Exited | Raised error

definition steps_F_G :: "decoder \<Rightarrow> string list \<Rightarrow> host \<Rightarrow> outcome \<times> host" where
  "steps_F_G netcdf downloaded_files w =
     (case process_files netcdf downloaded_files (w, []) of
        (w1, Inl e) \<Rightarrow> (Raised e, w1)
      | (w1, Inr all_rows) \<Rightarrow>
          if all_rows = []
          then (Exited, print_line ''No data was successfully processed. Exiting.'' w1)
          else
            (let combined = rename_columns (concat all_rows);
                 w2 = print_line (''Final dataset shape: ('' @ str_nat (length combined) @
                        '', '' @ str_nat (length (columns_of combined)) @ '')'') w1;
                 w3 = w2\<lparr>csv_file := Some (to_csv combined)\<rparr>;
                 w4 = print_line ''Processed data saved to argo_processed.csv'' w3
             in (Completed, loader w4)))"

text \<open>Every file of the list gives nothing: it does not open, or it flattens to no row.\<close>

definition yields_nothing :: "decoder \<Rightarrow> 'a world_scheme \<Rightarrow> string \<Rightarrow> bool" where
  "yields_nothing netcdf w fpath =
     (case open_dataset netcdf w fpath of
        Inl e \<Rightarrow> True
      | Inr ds \<Rightarrow> flatten ds vars_to_keep_default = Inr [])"

text \<open>
  A machine for the worked examples: a download cut short and a complete one (which
  decodes to the example dataset), a delimited file of two data lines, and a table
  that holds two rows of an earlier run.
\<close>

definition example_decoder :: decoder where
  "example_decoder bytes =
     (if bytes = ''CDF'' then Inr example_dataset else Inl ''NetCDF: Unknown file format'')"

definition example_host :: host where
  "example_host = \<lparr>
     files = [''argo_data_downloads/R13857_001.nc'' \<mapsto> ''CD'',
              ''argo_data_downloads/R6901_002.nc'' \<mapsto> ''CDF''],
     stdout = [],
     csv_file = Some [[Text ''float_id'', Text ''date''],
                      [Value (StrOf (Bytes ''5904297'')), Value (Date (Fin 26736))],
                      [Value (StrOf (Bytes ''5904298'')), Missing]],
     database = \<lparr>refuses = (\<lambda>s. None),
                 argo_profiles = Some [(1, [Text ''old'']), (2, [Text ''older''])]\<rparr> \<rparr>"


section \<open>The query interface (chatbot.py, lines 54-62)\<close>

text \<open>
  What the page shows: \<open>st.write\<close>, \<open>st.markdown\<close> and \<open>st.error\<close> calls, in order.
  The agent is external: it either raises (the message of the exception) or returns a
  response dictionary.
\<close>

datatype ui_event = Write string | Markdown string | Error string

definition dict_get :: "('k \<rightharpoonup> 'v) \<Rightarrow> 'k \<Rightarrow> 'v \<Rightarrow> 'v" where
  "dict_get d k dflt = (case d k of None \<Rightarrow> dflt | Some v \<Rightarrow> v)"

definition on_user_query ::
  "(string \<Rightarrow> string + (string \<rightharpoonup> string)) \<Rightarrow> string \<Rightarrow> ui_event list" where
  "on_user_query agent_invoke user_query =
     (if user_query = [] then []
      else case agent_invoke user_query of
        Inl e \<Rightarrow> [Error (''An error occurred while processing your query: '' @ e)]
      | Inr response \<Rightarrow>
          (let answer = dict_get response ''output'' ''Sorry, I couldn't find an answer.''
           in [Write ''**Answer:**'', Markdown answer]))"


section \<open>Properties of the catalog filter\<close>

lemma float_window: "(float_ge x lo \<and> float_le x hi) = in_closed_interval lo hi x"
  by (cases x) auto

lemma date_window: "(date_ge d lo \<and> date_le d hi) = in_date_range lo hi d"
  by (cases d) auto

lemma filtered_pred:
  "(float_ge (latitude row) (lat_min p) \<and> float_le (latitude row) (lat_max p) \<and>
    float_ge (longitude row) (lon_min p) \<and> float_le (longitude row) (lon_max p) \<and>
    date_ge (date row) (start_date p) \<and> date_le (date row) (end_date p))
   = spec_selected p row"
  unfolding spec_selected_def
  using float_window [of "latitude row" "lat_min p" "lat_max p"]
    float_window [of "longitude row" "lon_min p" "lon_max p"]
    date_window [of "date row" "start_date p" "end_date p"]
  by blast

lemma filtered_is_filter: "filtered p df_index = filter (spec_selected p) df_index"
  unfolding filtered_def by (simp only: filtered_pred)

text \<open>
  Claim C2. The filter keeps exactly the catalog rows whose latitude, longitude and date
  lie in the three closed intervals of the parameters, in catalog order; a row that sits
  on a bound in each of the three columns is kept (when the intervals are not empty);
  and when no row matches the result is the empty table, a value like any other.
\<close>

theorem filtered_selects_window:
  "filtered p df_index = filter (spec_selected p) df_index \<and>
   (row \<in> set (filtered p df_index) \<longleftrightarrow> row \<in> set df_index \<and> spec_selected p row) \<and>
   (row \<in> set df_index \<and>
    lat_min p \<le> lat_max p \<and> lon_min p \<le> lon_max p \<and> start_date p \<le> end_date p \<and>
    (latitude row = Fin (lat_min p) \<or> latitude row = Fin (lat_max p)) \<and>
    (longitude row = Fin (lon_min p) \<or> longitude row = Fin (lon_max p)) \<and>
    (date row = Some (start_date p) \<or> date row = Some (end_date p))
      \<longrightarrow> row \<in> set (filtered p df_index)) \<and>
   ((\<forall>r \<in> set df_index. \<not> spec_selected p r) \<longrightarrow> filtered p df_index = [])"
proof -
  have eq: "filtered p df_index = filter (spec_selected p) df_index"
    by (rule filtered_is_filter)
  have mem: "row \<in> set (filtered p df_index) \<longleftrightarrow> row \<in> set df_index \<and> spec_selected p row"
    by (simp add: eq)
  have bound: "row \<in> set df_index \<and>
    lat_min p \<le> lat_max p \<and> lon_min p \<le> lon_max p \<and> start_date p \<le> end_date p \<and>
    (latitude row = Fin (lat_min p) \<or> latitude row = Fin (lat_max p)) \<and>
    (longitude row = Fin (lon_min p) \<or> longitude row = Fin (lon_max p)) \<and>
    (date row = Some (start_date p) \<or> date row = Some (end_date p))
      \<longrightarrow> row \<in> set (filtered p df_index)"
    unfolding mem spec_selected_def by auto
  have none: "(\<forall>r \<in> set df_index. \<not> spec_selected p r) \<longrightarrow> filtered p df_index = []"
    by (simp add: eq)
  from eq mem bound none show ?thesis by blast
qed

text \<open>
  The scenario of the specification under the default parameters: the entry at latitude
  0, longitude 70 on 2023-03-15 is selected, the entry at latitude 10 is not, and an
  entry on the corner (5, 60) at the end bound is selected.
\<close>

theorem filtered_selects_window_witness:
  "filtered PARAMETERS
     [\<lparr>file_path = ''aoml/1/profiles/R1_001.nc'', date = Some 20230315000000,
        latitude = Fin 0, longitude = Fin 70\<rparr>,
      \<lparr>file_path = ''aoml/2/profiles/R2_001.nc'', date = Some 20230315000000,
        latitude = Fin 10, longitude = Fin 70\<rparr>,
      \<lparr>file_path = ''aoml/3/profiles/R3_001.nc'', date = Some 20230331000000,
        latitude = Fin 5, longitude = Fin 60\<rparr>]
   = [\<lparr>file_path = ''aoml/1/profiles/R1_001.nc'', date = Some 20230315000000,
        latitude = Fin 0, longitude = Fin 70\<rparr>,
      \<lparr>file_path = ''aoml/3/profiles/R3_001.nc'', date = Some 20230331000000,
        latitude = Fin 5, longitude = Fin 60\<rparr>] \<and>
   filtered PARAMETERS
     [\<lparr>file_path = ''aoml/2/profiles/R2_001.nc'', date = Some 20230315000000,
        latitude = Fin 10, longitude = Fin 70\<rparr>] = []"
  using filtered_selects_window [of PARAMETERS
     "[\<lparr>file_path = ''aoml/1/profiles/R1_001.nc'', date = Some 20230315000000,
        latitude = Fin 0, longitude = Fin 70\<rparr>,
      \<lparr>file_path = ''aoml/2/profiles/R2_001.nc'', date = Some 20230315000000,
        latitude = Fin 10, longitude = Fin 70\<rparr>,
      \<lparr>file_path = ''aoml/3/profiles/R3_001.nc'', date = Some 20230331000000,
        latitude = Fin 5, longitude = Fin 60\<rparr>]"]
    filtered_selects_window [of PARAMETERS
     "[\<lparr>file_path = ''aoml/2/profiles/R2_001.nc'', date = Some 20230315000000,
        latitude = Fin 10, longitude = Fin 70\<rparr>]"]
  by (simp add: spec_selected_def PARAMETERS_def)

text \<open>
  The end bound is the first instant of its day: an entry dated later on 2023-03-31
  lies after the bound and is not selected.
\<close>

lemma last_day_after_midnight_not_selected:
  "filtered PARAMETERS
     [\<lparr>file_path = ''aoml/4/profiles/R4_001.nc'', date = Some 20230331120000,
        latitude = Fin 0, longitude = Fin 70\<rparr>] = []"
  by (simp add: filtered_def PARAMETERS_def)


section \<open>Properties of the file retriever\<close>

lemma files_print_line [simp]: "files (print_line s w) = files w"
  by (simp add: print_line_def)

lemma path_exists_print_line [simp]: "path_exists (print_line s w) p = path_exists w p"
  by (simp add: path_exists_def)

lemma retrieve_entry_list:
  "snd (retrieve_entry server row (w, dl)) =
     (if retrieved_or_present server w row then dl @ [dest_of row] else dl)"
  by (cases "server (file_url_of row) (dest_of row)")
     (simp_all add: retrieve_entry_def download_file_ftp_def retrieved_or_present_def Let_def)

lemma retrieve_entry_files:
  "files (fst (retrieve_entry server row (w, dl))) =
     (if path_exists w (dest_of row) then files w
      else case left_behind (server (file_url_of row) (dest_of row)) of
             None \<Rightarrow> files w
           | Some b \<Rightarrow> (files w)(dest_of row \<mapsto> b))"
  by (cases "server (file_url_of row) (dest_of row)")
     (simp_all add: retrieve_entry_def download_file_ftp_def Let_def)

lemma retrieve_entry_files_other:
  "p \<noteq> dest_of row \<Longrightarrow> files (fst (retrieve_entry server row (w, dl))) p = files w p"
  by (simp add: retrieve_entry_files split: option.splits)

lemma retrieve_entry_retrieved_or_present_other:
  "dest_of r \<noteq> dest_of row \<Longrightarrow>
     retrieved_or_present server (fst (retrieve_entry server row (w, dl))) r = retrieved_or_present server w r"
  by (simp add: retrieved_or_present_def path_exists_def retrieve_entry_files_other)

lemma retrieve_all_list:
  "distinct (map dest_of rows) \<Longrightarrow>
     snd (retrieve_all server rows (w, dl)) = dl @ map dest_of (filter (retrieved_or_present server w) rows)"
proof (induction rows arbitrary: w dl)
  case Nil
  then show ?case by simp
next
  case (Cons row rows)
  obtain w' dl' where st: "retrieve_entry server row (w, dl) = (w', dl')"
    by (cases "retrieve_entry server row (w, dl)")
  have dl': "dl' = (if retrieved_or_present server w row then dl @ [dest_of row] else dl)"
    using retrieve_entry_list [of server row w dl] st by simp
  have other: "\<forall>r \<in> set rows. retrieved_or_present server w' r = retrieved_or_present server w r"
  proof
    fix r assume "r \<in> set rows"
    then have "dest_of r \<in> dest_of ` set rows" by (rule imageI)
    with Cons.prems have "dest_of r \<noteq> dest_of row" by force
    from retrieve_entry_retrieved_or_present_other [OF this, of server w dl] st
    show "retrieved_or_present server w' r = retrieved_or_present server w r" by simp
  qed
  have "filter (retrieved_or_present server w') rows = filter (retrieved_or_present server w) rows"
    using other by (intro filter_cong) auto
  moreover have "snd (retrieve_all server rows (w', dl')) =
      dl' @ map dest_of (filter (retrieved_or_present server w') rows)"
    using Cons.IH [of w' dl'] Cons.prems by simp
  ultimately show ?case
    by (simp add: st dl')
qed

lemma retrieve_all_files_other:
  "p \<notin> dest_of ` set rows \<Longrightarrow> files (fst (retrieve_all server rows (w, dl))) p = files w p"
proof (induction rows arbitrary: w dl)
  case Nil
  then show ?case by simp
next
  case (Cons row rows)
  obtain w' dl' where st: "retrieve_entry server row (w, dl) = (w', dl')"
    by (cases "retrieve_entry server row (w, dl)")
  from Cons.prems have "p \<noteq> dest_of row" and "p \<notin> dest_of ` set rows" by auto
  then show ?case
    using Cons.IH [of w' dl'] retrieve_entry_files_other [of p row server w dl] st by simp
qed

lemma retrieve_all_files_at:
  "distinct (map dest_of rows) \<Longrightarrow> row \<in> set rows \<Longrightarrow>
     files (fst (retrieve_all server rows (w, dl))) (dest_of row) =
       (case files w (dest_of row) of
          Some b \<Rightarrow> Some b
        | None \<Rightarrow> left_behind (server (file_url_of row) (dest_of row)))"
proof (induction rows arbitrary: w dl)
  case Nil
  then show ?case by simp
next
  case (Cons r rows)
  obtain w' dl' where st: "retrieve_entry server r (w, dl) = (w', dl')"
    by (cases "retrieve_entry server r (w, dl)")
  show ?case
  proof (cases "row \<in> set rows")
    case True
    then have "dest_of row \<in> dest_of ` set rows" by (rule imageI)
    with Cons.prems have ne: "dest_of row \<noteq> dest_of r" by force
    have "files w' (dest_of row) = files w (dest_of row)"
      using retrieve_entry_files_other [OF ne, of server w dl] st by simp
    then show ?thesis
      using Cons.IH [of w' dl'] Cons.prems True st by simp
  next
    case False
    with Cons.prems have eq: "row = r" by simp
    from Cons.prems have "dest_of r \<notin> dest_of ` set rows" by auto
    then have "files (fst (retrieve_all server rows (w', dl'))) (dest_of r) = files w' (dest_of r)"
      by (rule retrieve_all_files_other)
    moreover have "files w' (dest_of r) =
       (case files w (dest_of r) of
          Some b \<Rightarrow> Some b
        | None \<Rightarrow> left_behind (server (file_url_of r) (dest_of r)))"
      using retrieve_entry_files [of server r w dl] st
      by (auto simp: path_exists_def split: option.splits)
    ultimately show ?thesis unfolding eq by (simp add: st)
  qed
qed

lemma retrieve_all_present:
  "\<forall>row \<in> set rows. path_exists w (dest_of row) \<Longrightarrow>
     retrieve_all server rows (w, dl) =
       (foldl (\<lambda>w row. print_line (''Already exists: '' @ fname_of row) w) w rows,
        dl @ map dest_of rows)"
proof (induction rows arbitrary: w dl)
  case Nil
  then show ?case by simp
next
  case (Cons row rows)
  have st: "retrieve_entry server row (w, dl) =
      (print_line (''Already exists: '' @ fname_of row) w, dl @ [dest_of row])"
    using Cons.prems by (simp add: retrieve_entry_def Let_def)
  show ?case
    using Cons.IH [of "print_line (''Already exists: '' @ fname_of row) w" "dl @ [dest_of row]"]
      Cons.prems by (simp add: st)
qed

lemma files_foldl_print [simp]:
  "files (foldl (\<lambda>w row. print_line (f row) w) w rows) = files w"
  by (induction rows arbitrary: w) simp_all


lemma step_E_present:
  assumes "\<forall>r \<in> set rows. path_exists w (dest_of r)"
  shows "files (fst (step_E server rows w)) = files w"
    and "snd (step_E server rows w) = map dest_of rows"
    and "step_E server' rows w = step_E server rows w"
  using retrieve_all_present [OF assms, of server "[]"]
    retrieve_all_present [OF assms, of server' "[]"]
  by (simp_all add: step_E_def)

lemma example_dests:
  "dest_of example_row = ''argo_data_downloads/R13857_001.nc''"
  "dest_of example_other_row = ''argo_data_downloads/R6901_002.nc''"
  "fname_of example_row = ''R13857_001.nc''"
  "fname_of example_other_row = ''R6901_002.nc''"
  "file_url_of example_row = ''ftp://ftp.ifremer.fr/ifremer/argo/aoml/13857/profiles/R13857_001.nc''"
  by (simp_all add: dest_of_def fname_of_def file_url_of_def urljoin_def FTP_BASE_URL_def
      basename_def path_join_def download_folder_def example_row_def example_other_row_def)

text \<open>
  Claim C3. An entry whose destination exists is not downloaded: the body of the loop
  prints one line, appends the destination to the list and leaves every local file as
  it was, whatever the server would have answered. Hence a run on a machine where every
  destination exists changes no local file and returns the list of all destinations,
  independently of the server, and so does a second run after it.
\<close>

theorem present_files_not_downloaded_again:
  "(path_exists w (dest_of row) \<longrightarrow>
      retrieve_entry server row (w, dl) =
        (print_line (''Already exists: '' @ fname_of row) w, dl @ [dest_of row]) \<and>
      files (fst (retrieve_entry server row (w, dl))) = files w) \<and>
   ((\<forall>r \<in> set rows. path_exists w (dest_of r)) \<longrightarrow>
      files (fst (step_E server rows w)) = files w \<and>
      snd (step_E server rows w) = map dest_of rows \<and>
      step_E server' rows w = step_E server rows w \<and>
      files (fst (step_E server' rows (fst (step_E server rows w)))) = files w \<and>
      snd (step_E server' rows (fst (step_E server rows w))) = snd (step_E server rows w))"
proof (intro conjI impI)
  assume ex: "path_exists w (dest_of row)"
  show "retrieve_entry server row (w, dl) =
        (print_line (''Already exists: '' @ fname_of row) w, dl @ [dest_of row])"
    using ex by (simp add: retrieve_entry_def Let_def)
  then show "files (fst (retrieve_entry server row (w, dl))) = files w"
    by simp
next
  assume all: "\<forall>r \<in> set rows. path_exists w (dest_of r)"
  show f1: "files (fst (step_E server rows w)) = files w"
    and l1: "snd (step_E server rows w) = map dest_of rows"
    and "step_E server' rows w = step_E server rows w"
    using step_E_present [OF all] by blast+
  have all': "\<forall>r \<in> set rows. path_exists (fst (step_E server rows w)) (dest_of r)"
    using all by (simp add: path_exists_def f1)
  show "files (fst (step_E server' rows (fst (step_E server rows w)))) = files w"
    using step_E_present(1) [OF all', of server'] f1 by simp
  show "snd (step_E server' rows (fst (step_E server rows w))) = snd (step_E server rows w)"
    using step_E_present(2) [OF all', of server'] l1 by simp
qed

theorem present_files_not_downloaded_again_witness:
  "path_exists \<lparr>files = [''argo_data_downloads/R13857_001.nc'' \<mapsto> ''old''], stdout = []\<rparr>
     (dest_of example_row) \<and>
   step_E (\<lambda>u d. Complete ''new'') [example_row]
     \<lparr>files = [''argo_data_downloads/R13857_001.nc'' \<mapsto> ''old''], stdout = []\<rparr>
   = (\<lparr>files = [''argo_data_downloads/R13857_001.nc'' \<mapsto> ''old''],
       stdout = [''Already exists: R13857_001.nc'']\<rparr>,
      [''argo_data_downloads/R13857_001.nc''])"
  using present_files_not_downloaded_again [of
      "\<lparr>files = [''argo_data_downloads/R13857_001.nc'' \<mapsto> ''old''], stdout = []\<rparr>"
      example_row "\<lambda>u d. Complete ''new''" "[]" "[example_row]" "\<lambda>u d. Complete ''new''"]
  by (simp add: step_E_def example_dests path_exists_def print_line_def)

text \<open>
  Claim C7. A download that does not complete makes \<open>download_file_ftp\<close> return
  \<open>False\<close> (the exception is caught), its message is printed, the destination is not
  appended, and the loop goes on with the remaining entries. When the destinations of
  the selected entries are pairwise different, the list returned by the run is exactly,
  in catalog order, the destinations of the entries that were present before the run or
  whose download completed.
\<close>

theorem failed_download_is_skipped:
  "(\<not> path_exists w (dest_of row) \<and>
    \<not> is_complete (server (file_url_of row) (dest_of row)) \<longrightarrow>
      fst (download_file_ftp server (file_url_of row) (dest_of row) w) = False \<and>
      snd (retrieve_entry server row (w, dl)) = dl \<and>
      stdout (fst (retrieve_entry server row (w, dl))) =
        stdout w @ [''Downloading: '' @ fname_of row,
                    ''  -> FTP Download Failed for '' @ file_url_of row @ '': '' @
                      failure_text (server (file_url_of row) (dest_of row))] \<and>
      snd (retrieve_all server (row # rows) (w, dl)) =
        snd (retrieve_all server rows (fst (retrieve_entry server row (w, dl)), dl))) \<and>
   (distinct (map dest_of entries) \<longrightarrow>
      snd (step_E server entries w) =
        map dest_of (filter (retrieved_or_present server w) entries))"
proof (intro conjI impI)
  assume a: "\<not> path_exists w (dest_of row) \<and>
    \<not> is_complete (server (file_url_of row) (dest_of row))"
  show "fst (download_file_ftp server (file_url_of row) (dest_of row) w) = False"
    using a by (cases "server (file_url_of row) (dest_of row)")
      (simp_all add: download_file_ftp_def)
  show l: "snd (retrieve_entry server row (w, dl)) = dl"
    using a by (simp add: retrieve_entry_list retrieved_or_present_def)
  show "stdout (fst (retrieve_entry server row (w, dl))) =
        stdout w @ [''Downloading: '' @ fname_of row,
                    ''  -> FTP Download Failed for '' @ file_url_of row @ '': '' @
                      failure_text (server (file_url_of row) (dest_of row))]"
    using a by (cases "server (file_url_of row) (dest_of row)")
      (simp_all add: retrieve_entry_def download_file_ftp_def print_line_def
         path_exists_def Let_def)
  show "snd (retrieve_all server (row # rows) (w, dl)) =
        snd (retrieve_all server rows (fst (retrieve_entry server row (w, dl)), dl))"
    using l by (cases "retrieve_entry server row (w, dl)") simp
next
  assume "distinct (map dest_of entries)"
  then show "snd (step_E server entries w) =
      map dest_of (filter (retrieved_or_present server w) entries)"
    using retrieve_all_list [of entries server w "[]"] by (simp add: step_E_def)
qed

theorem failed_download_is_skipped_witness:
  "\<not> path_exists \<lparr>files = Map.empty, stdout = []\<rparr> (dest_of example_row) \<and>
   \<not> is_complete (Refused ''timed out'') \<and>
   distinct (map dest_of [example_row, example_other_row]) \<and>
   snd (step_E (\<lambda>u d. if d = ''argo_data_downloads/R13857_001.nc'' then Refused ''timed out''
                      else Complete ''CDF'')
         [example_row, example_other_row] \<lparr>files = Map.empty, stdout = []\<rparr>)
     = [''argo_data_downloads/R6901_002.nc'']"
  using failed_download_is_skipped [of "\<lparr>files = Map.empty, stdout = []\<rparr>" example_row
      "\<lambda>u d. if d = ''argo_data_downloads/R13857_001.nc'' then Refused ''timed out''
                      else Complete ''CDF''" "[]" "[example_other_row]"
      "[example_row, example_other_row]"]
  by (simp add: example_dests path_exists_def retrieved_or_present_def)

text \<open>
  Claim C10. A transfer that raises after the destination was opened returns failure
  and leaves the bytes written so far at the destination. In a run over entries with
  pairwise different destinations such an entry is not in the run's list, but its
  partial file stays; the next run, whatever the server answers then, finds the file,
  lists it and leaves its partial content as it is.
\<close>

theorem aborted_download_leaves_partial_file:
  "(server file_url dest = Aborted written e \<longrightarrow>
      fst (download_file_ftp server file_url dest w) = False \<and>
      files (snd (download_file_ftp server file_url dest w)) dest = Some written) \<and>
   (distinct (map dest_of rows) \<and> row \<in> set rows \<and> \<not> path_exists w (dest_of row) \<and>
    server (file_url_of row) (dest_of row) = Aborted written e \<longrightarrow>
      dest_of row \<notin> set (snd (step_E server rows w)) \<and>
      files (fst (step_E server rows w)) (dest_of row) = Some written \<and>
      dest_of row \<in> set (snd (step_E server' rows (fst (step_E server rows w)))) \<and>
      files (fst (step_E server' rows (fst (step_E server rows w)))) (dest_of row)
        = Some written)"
proof (intro conjI impI)
  assume "server file_url dest = Aborted written e"
  then show "fst (download_file_ftp server file_url dest w) = False"
    and "files (snd (download_file_ftp server file_url dest w)) dest = Some written"
    by (simp_all add: download_file_ftp_def)
next
  assume a: "distinct (map dest_of rows) \<and> row \<in> set rows \<and> \<not> path_exists w (dest_of row) \<and>
    server (file_url_of row) (dest_of row) = Aborted written e"
  then have d: "distinct (map dest_of rows)" and m: "row \<in> set rows"
    and n: "\<not> path_exists w (dest_of row)"
    and ab: "server (file_url_of row) (dest_of row) = Aborted written e"
    by blast+
  define w1 where "w1 = fst (step_E server rows w)"
  have inj: "inj_on dest_of (set rows)"
    using d by (simp add: distinct_map)
  have nk: "\<not> retrieved_or_present server w row"
    using n ab by (simp add: retrieved_or_present_def)
  have l1: "snd (step_E server rows w) = map dest_of (filter (retrieved_or_present server w) rows)"
    using retrieve_all_list [OF d, of server w "[]"] by (simp add: step_E_def)
  show "dest_of row \<notin> set (snd (step_E server rows w))"
  proof
    assume "dest_of row \<in> set (snd (step_E server rows w))"
    then obtain r where r: "r \<in> set rows" "retrieved_or_present server w r" "dest_of r = dest_of row"
      unfolding l1 by auto
    with inj m have "r = row" by (auto dest: inj_onD)
    with r nk show False by simp
  qed
  have f1: "files w1 (dest_of row) = Some written"
    using retrieve_all_files_at [OF d m, of server w "[]"] n ab
    by (simp add: step_E_def w1_def path_exists_def)
  then show "files (fst (step_E server rows w)) (dest_of row) = Some written"
    by (simp add: w1_def)
  have k2: "retrieved_or_present server' w1 row"
    using f1 by (simp add: retrieved_or_present_def path_exists_def)
  have "snd (step_E server' rows w1) = map dest_of (filter (retrieved_or_present server' w1) rows)"
    using retrieve_all_list [OF d, of server' w1 "[]"] by (simp add: step_E_def)
  then show "dest_of row \<in> set (snd (step_E server' rows (fst (step_E server rows w))))"
    using m k2 by (simp add: w1_def [symmetric])
  have "files (fst (step_E server' rows w1)) (dest_of row) = Some written"
    using retrieve_all_files_at [OF d m, of server' w1 "[]"] f1
    by (simp add: step_E_def)
  then show "files (fst (step_E server' rows (fst (step_E server rows w)))) (dest_of row)
        = Some written"
    by (simp add: w1_def)
qed


theorem aborted_download_leaves_partial_file_witness:
  "distinct (map dest_of [example_row, example_other_row]) \<and>
   \<not> path_exists \<lparr>files = Map.empty, stdout = []\<rparr> (dest_of example_row) \<and>
   snd (step_E (\<lambda>u d. if d = ''argo_data_downloads/R13857_001.nc''
                      then Aborted ''CD'' ''connection reset'' else Complete ''CDF'')
         [example_row, example_other_row] \<lparr>files = Map.empty, stdout = []\<rparr>)
     = [''argo_data_downloads/R6901_002.nc''] \<and>
   files (fst (step_E (\<lambda>u d. if d = ''argo_data_downloads/R13857_001.nc''
                      then Aborted ''CD'' ''connection reset'' else Complete ''CDF'')
         [example_row, example_other_row] \<lparr>files = Map.empty, stdout = []\<rparr>))
     ''argo_data_downloads/R13857_001.nc'' = Some ''CD'' \<and>
   snd (step_E (\<lambda>u d. Complete ''CDF'') [example_row, example_other_row]
         (fst (step_E (\<lambda>u d. if d = ''argo_data_downloads/R13857_001.nc''
                      then Aborted ''CD'' ''connection reset'' else Complete ''CDF'')
         [example_row, example_other_row] \<lparr>files = Map.empty, stdout = []\<rparr>)))
     = [''argo_data_downloads/R13857_001.nc'', ''argo_data_downloads/R6901_002.nc''] \<and>
   files (fst (step_E (\<lambda>u d. Complete ''CDF'') [example_row, example_other_row]
         (fst (step_E (\<lambda>u d. if d = ''argo_data_downloads/R13857_001.nc''
                      then Aborted ''CD'' ''connection reset'' else Complete ''CDF'')
         [example_row, example_other_row] \<lparr>files = Map.empty, stdout = []\<rparr>))))
     ''argo_data_downloads/R13857_001.nc'' = Some ''CD''"
  using aborted_download_leaves_partial_file [of
      "\<lambda>u d. if d = ''argo_data_downloads/R13857_001.nc''
                      then Aborted ''CD'' ''connection reset'' else Complete ''CDF''"
      "file_url_of example_row" "dest_of example_row" "''CD''" "''connection reset''"
      "\<lparr>files = Map.empty, stdout = []\<rparr>" "[example_row, example_other_row]" example_row
      "\<lambda>u d. Complete ''CDF''"]
  by (simp add: example_dests path_exists_def step_E_def retrieve_entry_def
      download_file_ftp_def print_line_def Let_def)


section \<open>Properties of the profile flattener\<close>

text \<open>
  The simplification procedure that turns the set of a list comprehension into a set
  comprehension fails on the comprehension of \<open>accepted_fields\<close>; it is switched off.
\<close>

declare TrueI [simproc del: list_to_set_comprehension]


lemma list_all_take_nth:
  "list_all P (take n xs) \<Longrightarrow> n \<le> length xs \<Longrightarrow> i < n \<Longrightarrow> P (xs ! i)"
  by (simp add: list_all_length)

lemma and_then_Inr [simp]: "and_then (Inr x) f = f x"
  by (simp add: and_then_def)

lemma and_then_Inl [simp]: "and_then (Inl e) f = Inl e"
  by (simp add: and_then_def)

lemma is_num_float: "is_num x \<Longrightarrow> \<exists>v. py_float x = Inr v"
  by (cases x) auto

lemma is_day_offset_timestamp: "is_day_offset x \<Longrightarrow> \<exists>t. to_timestamp x = Inr t"
  by (cases x rule: to_timestamp.cases) auto

lemma collect_timestamps:
  "list_all is_day_offset xs \<Longrightarrow>
     \<exists>ts. collect (map to_timestamp xs) = Inr ts \<and> length ts = length xs"
proof (induction xs)
  case Nil
  then show ?case by simp
next
  case (Cons x xs)
  then obtain t ts where "to_timestamp x = Inr t"
    and "collect (map to_timestamp xs) = Inr ts" and "length ts = length xs"
    using is_day_offset_timestamp [of x] by auto
  then show ?case by simp
qed

lemma item_defined: "item a \<noteq> Inl ValueError \<Longrightarrow> \<exists>x. item a = Inr x"
  by (cases a rule: item.cases) auto


lemma float_matrix_at2:
  "float_matrix n m a \<Longrightarrow> i < n \<Longrightarrow> j < m \<Longrightarrow> \<exists>v. and_then (at2 a i j) py_float = Inr v"
proof (cases a)
  case (Arr2 rows)
  assume a: "float_matrix n m a" "i < n" "j < m"
  with Arr2 have len: "n \<le> length rows"
    and row: "m \<le> length (rows ! i) \<and> list_all is_num (take m (rows ! i))"
    using list_all_take_nth [of "\<lambda>r. m \<le> length r \<and> list_all is_num (take m r)" n rows i]
    by auto
  then have "is_num (rows ! i ! j)"
    using list_all_take_nth [of is_num m "rows ! i" j] a by simp
  then obtain v where "py_float (rows ! i ! j) = Inr v"
    using is_num_float by blast
  with a len row Arr2 show ?thesis by simp
qed auto

lemma float_vector_at1:
  "float_vector n a \<Longrightarrow> i < n \<Longrightarrow> \<exists>v. float_at1 a i = Inr v"
proof (cases a)
  case (Arr1 xs)
  assume a: "float_vector n a" "i < n"
  with Arr1 have "is_num (xs ! i)"
    using list_all_take_nth [of is_num n xs i] by simp
  then obtain v where "py_float (xs ! i) = Inr v"
    using is_num_float by blast
  with a Arr1 show ?thesis by simp
qed auto

lemma has_Some: "has ds name P \<Longrightarrow> \<exists>a. variables ds name = Some a \<and> P a"
  by (auto simp: has_def split: option.splits)


lemma read_header_defined:
  assumes "well_formed_header ds n m"
  shows "\<exists>h. read_header ds = Inr h \<and> n \<le> length (times h) \<and> float_vector n (lat h) \<and>
           float_vector n (lon h) \<and> float_matrix n m (depth h)"
proof -
  from assms obtain pn juld la lo pres where
    v: "variables ds ''PLATFORM_NUMBER'' = Some pn" "item pn \<noteq> Inl ValueError"
       "variables ds ''JULD'' = Some juld" "time_vector n juld"
       "variables ds ''LATITUDE'' = Some la" "float_vector n la"
       "variables ds ''LONGITUDE'' = Some lo" "float_vector n lo"
       "variables ds ''PRES'' = Some pres" "float_matrix n m pres"
    unfolding well_formed_header_def by (auto dest!: has_Some)
  from v(2) obtain x where x: "item pn = Inr x"
    using item_defined by blast
  from v(4) obtain xs where xs: "juld = Arr1 xs" "n \<le> length xs" "list_all is_day_offset xs"
    by (cases juld) auto
  from collect_timestamps [OF xs(3)] obtain ts
    where ts: "collect (map to_timestamp xs) = Inr ts" "length ts = length xs" by blast
  have "read_header ds =
      Inr \<lparr>float_id = StrOf x, times = ts, lat = la, lon = lo, depth = pres\<rparr>"
    using v x xs ts by (simp add: read_header_def getitem_def)
  with v xs ts show ?thesis by simp
qed

lemma new_record_defined:
  assumes "n \<le> length (times h)" "float_vector n (lat h)" "float_vector n (lon h)"
    "float_matrix n m (depth h)" "i < n" "j < m"
  shows "\<exists>record0. new_record h i j = Inr record0 \<and> map fst record0 = mandatory_fields"
proof -
  obtain la where la: "float_at1 (lat h) i = Inr la"
    using float_vector_at1 assms by blast
  obtain lo where lo: "float_at1 (lon h) i = Inr lo"
    using float_vector_at1 assms by blast
  obtain d where d: "and_then (at2 (depth h) i j) py_float = Inr d"
    using float_matrix_at2 assms by blast
  show ?thesis
    using assms la lo d
    by (simp add: new_record_def nth_or_raise_def mandatory_fields_def)
qed

lemma accepted_fields_Nil [simp]: "accepted_fields ds [] i j = []"
  by (simp add: accepted_fields_def)














text \<open>
  Outside the well-formed datasets the function raises. In particular \<open>.item()\<close> wants
  a platform number of one element: on a dataset that gives it one entry per profile
  and holds several profiles, line 108 raises ValueError before any record is built.
\<close>

lemma platform_number_per_profile_raises:
  "variables ds ''PLATFORM_NUMBER'' = Some (Arr1 (x # y # zs)) \<Longrightarrow>
     flatten ds vars = Inl ValueError"
  by (simp add: flatten_def read_header_def getitem_def)

lemma new_record_keys: "new_record h i j = Inr record0 \<Longrightarrow> map fst record0 = mandatory_fields"
  by (auto simp: new_record_def and_then_def mandatory_fields_def split: sum.splits)

lemma add_variables_keys:
  "add_variables ds i j vars rcd = Inr r \<Longrightarrow>
     fst ` set r \<subseteq> fst ` set rcd \<union> lower ` {v \<in> set vars. qc_present ds v}"
proof (induction vars arbitrary: rcd)
  case Nil
  then show ?case by simp
next
  case (Cons var vars)
  show ?case
  proof (cases "variables ds (var @ ''_QC'')")
    case None
    with Cons.prems have "add_variables ds i j vars rcd = Inr r" by simp
    from Cons.IH [OF this] show ?thesis by auto
  next
    case (Some qc)
    then have p: "qc_present ds var" by (simp add: qc_present_def)
    from Cons.prems Some obtain rcd' where
      step: "add_variables ds i j vars rcd' = Inr r"
      and rcd': "rcd' = rcd \<or> (\<exists>x. rcd' = AList.update (lower var) (Float x) rcd)"
      by (auto split: sum.splits if_splits)
    have "fst ` set (AList.update (lower var) (Float x) rcd) = {lower var} \<union> fst ` set rcd"
      for x by (rule dom_update)
    with rcd' have sub: "fst ` set rcd' \<subseteq> insert (lower var) (fst ` set rcd)"
      by blast
    have tgt: "lower ` {v \<in> set (var # vars). qc_present ds v} =
        insert (lower var) (lower ` {v \<in> set vars. qc_present ds v})"
      using p by auto
    from Cons.IH [OF step] sub show ?thesis
      unfolding tgt by blast
  qed
qed

lemma add_variables_no_qc:
  "\<forall>v \<in> set vars. \<not> qc_present ds v \<Longrightarrow> add_variables ds i j vars rcd = Inr rcd"
  by (induction vars) (simp_all add: qc_present_def)

lemma level_body_keys:
  assumes "level_body ds h vars i j rows = Inr rows'" "\<forall>r \<in> set rows. known_keys ds vars r"
  shows "\<forall>r \<in> set rows'. known_keys ds vars r"
proof -
  from assms(1) obtain record0 r where r0: "new_record h i j = Inr record0"
    and r: "add_variables ds i j vars record0 = Inr r"
    and rows': "rows' = (if length r > 5 then rows @ [r] else rows)"
    by (auto simp: level_body_def and_then_def split: sum.splits)
  from new_record_keys [OF r0] have "fst ` set record0 = set mandatory_fields"
    by (metis set_map)
  with add_variables_keys [OF r] have "known_keys ds vars r"
    by (simp add: known_keys_def)
  with assms(2) rows' show ?thesis by auto
qed

lemma for_levels_keys:
  "for_levels ds h vars i js rows = Inr rows' \<Longrightarrow> \<forall>r \<in> set rows. known_keys ds vars r \<Longrightarrow>
     \<forall>r \<in> set rows'. known_keys ds vars r"
proof (induction js arbitrary: rows)
  case Nil
  then show ?case by simp
next
  case (Cons j js)
  from Cons.prems(1) obtain rows1 where b: "level_body ds h vars i j rows = Inr rows1"
    and l: "for_levels ds h vars i js rows1 = Inr rows'"
    by (auto split: sum.splits)
  from Cons.IH [OF l level_body_keys [OF b Cons.prems(2)]] show ?case .
qed

lemma for_profiles_keys:
  "for_profiles ds h vars idx rows = Inr rows' \<Longrightarrow> \<forall>r \<in> set rows. known_keys ds vars r \<Longrightarrow>
     \<forall>r \<in> set rows'. known_keys ds vars r"
proof (induction idx arbitrary: rows)
  case Nil
  then show ?case by simp
next
  case (Cons i idx)
  from Cons.prems(1) obtain m rows1 where
    l: "for_levels ds h vars i [0..<m] rows = Inr rows1"
    and p: "for_profiles ds h vars idx rows1 = Inr rows'"
    by (auto split: sum.splits)
  from Cons.IH [OF p for_levels_keys [OF l Cons.prems(2)]] show ?case .
qed

lemma flatten_keys: "\<forall>r \<in> set (records_of (flatten ds vars)). known_keys ds vars r"
proof (cases "flatten ds vars")
  case (Inl e)
  then show ?thesis by (simp add: records_of_def)
next
  case (Inr rows)
  then obtain h n where "for_profiles ds h vars [0..<n] [] = Inr rows"
    by (auto simp: flatten_def and_then_def split: sum.splits)
  from for_profiles_keys [OF this] Inr show ?thesis by (simp add: records_of_def)
qed

lemma level_body_no_qc:
  assumes "\<forall>v \<in> set vars. \<not> qc_present ds v"
  shows "level_body ds h vars i j rows = and_then (new_record h i j) (\<lambda>r. Inr rows)"
proof (cases "new_record h i j")
  case (Inl e)
  then show ?thesis by (simp add: level_body_def and_then_def)
next
  case (Inr record0)
  have "length (map fst record0) = 5"
    using new_record_keys [OF Inr] by (simp add: mandatory_fields_def)
  then have "length record0 = 5" by simp
  with Inr add_variables_no_qc [OF assms, of i j record0] show ?thesis
    by (simp add: level_body_def and_then_def)
qed

lemma for_levels_no_qc:
  assumes "\<forall>v \<in> set vars. \<not> qc_present ds v"
  shows "for_levels ds h vars i js rows = Inr rows' \<Longrightarrow> rows' = rows"
proof (induction js)
  case Nil
  then show ?case by simp
next
  case (Cons j js)
  then show ?case
    by (auto simp: level_body_no_qc [OF assms] and_then_def split: sum.splits)
qed

lemma for_profiles_no_qc:
  assumes "\<forall>v \<in> set vars. \<not> qc_present ds v"
  shows "for_profiles ds h vars idx rows = Inr rows' \<Longrightarrow> rows' = rows"
proof (induction idx)
  case Nil
  then show ?case by simp
next
  case (Cons i idx)
  then show ?case
    by (auto split: sum.splits dest: for_levels_no_qc [OF assms])
qed

lemma flatten_no_qc:
  assumes "\<forall>v \<in> set vars. \<not> qc_present ds v"
  shows "records_of (flatten ds vars) = []"
proof (cases "flatten ds vars")
  case (Inl e)
  then show ?thesis by (simp add: records_of_def)
next
  case (Inr rows)
  then obtain h n where "for_profiles ds h vars [0..<n] [] = Inr rows"
    by (auto simp: flatten_def and_then_def split: sum.splits)
  from for_profiles_no_qc [OF assms this] Inr show ?thesis by (simp add: records_of_def)
qed


lemma for_levels_no_qc_defined:
  assumes "\<forall>v \<in> set vars. \<not> qc_present ds v"
    and h: "n \<le> length (times h)" "float_vector n (lat h)" "float_vector n (lon h)"
      "float_matrix n m (depth h)"
    and i: "i < n"
  shows "\<forall>j \<in> set js. j < m \<Longrightarrow> for_levels ds h vars i js rows = Inr rows"
proof (induction js)
  case Nil
  then show ?case by simp
next
  case (Cons j js)
  then have j: "j < m" by simp
  from new_record_defined [OF h i j] obtain record0 where "new_record h i j = Inr record0"
    by blast
  then have "level_body ds h vars i j rows = Inr rows"
    by (simp add: level_body_no_qc [OF assms(1)])
  with Cons show ?case by simp
qed

lemma for_profiles_no_qc_defined:
  assumes "\<forall>v \<in> set vars. \<not> qc_present ds v"
    and h: "n \<le> length (times h)" "float_vector n (lat h)" "float_vector n (lon h)"
      "float_matrix n m (depth h)"
    and m: "dims ds ''N_LEVELS'' = Some m"
  shows "\<forall>i \<in> set idx. i < n \<Longrightarrow> for_profiles ds h vars idx rows = Inr rows"
proof (induction idx)
  case Nil
  then show ?case by simp
next
  case (Cons i idx)
  then have i: "i < n" by simp
  have "for_levels ds h vars i [0..<m] rows = Inr rows"
    using for_levels_no_qc_defined [OF assms(1) h i, of "[0..<m]" rows] by simp
  with Cons m show ?case by (simp add: getdim_def)
qed

text \<open>
  Claim C9. A requested variable whose companion quality-control array is absent has
  no entry in any record the flattener returns (for requested names a record can tell
  apart). When no requested variable has its companion array, the flattener returns no
  record at all; on a dataset with a well-formed header it returns the empty list
  without raising, whether or not the value arrays are there.
\<close>

theorem absent_qc_array_excludes_variable:
  "(var \<in> set vars \<and> variables ds (var @ ''_QC'') = None \<and> requested vars \<longrightarrow>
      (\<forall>r \<in> set (records_of (flatten ds vars)). map_of r (lower var) = None)) \<and>
   ((\<forall>v \<in> set vars. variables ds (v @ ''_QC'') = None) \<longrightarrow>
      records_of (flatten ds vars) = [] \<and>
      (well_formed_header ds n_prof n_levels \<longrightarrow> flatten ds vars = Inr []))"
proof (intro conjI impI ballI)
  fix r
  assume a: "var \<in> set vars \<and> variables ds (var @ ''_QC'') = None \<and> requested vars"
    and r: "r \<in> set (records_of (flatten ds vars))"
  from a have var: "var \<in> set vars" and no: "\<not> qc_present ds var"
    and inj: "inj_on lower (set vars)" and nm: "lower var \<notin> set mandatory_fields"
    by (auto simp: qc_present_def requested_def distinct_map list_all_iff)
  have "lower var \<notin> lower ` {v \<in> set vars. qc_present ds v}"
  proof
    assume "lower var \<in> lower ` {v \<in> set vars. qc_present ds v}"
    then obtain v where v: "v \<in> set vars" "qc_present ds v" "lower var = lower v" by auto
    with inj var have "var = v" by (auto dest: inj_onD)
    with v no show False by simp
  qed
  moreover from flatten_keys r have "known_keys ds vars r" by blast
  ultimately have "lower var \<notin> fst ` set r"
    using nm unfolding known_keys_def by blast
  then show "map_of r (lower var) = None"
    by (simp add: map_of_eq_None_iff)
next
  assume a: "\<forall>v \<in> set vars. variables ds (v @ ''_QC'') = None"
  then have no: "\<forall>v \<in> set vars. \<not> qc_present ds v"
    by (simp add: qc_present_def)
  show "records_of (flatten ds vars) = []"
    using no by (rule flatten_no_qc)
  assume wh: "well_formed_header ds n_prof n_levels"
  from read_header_defined [OF wh] obtain h where
    h: "read_header ds = Inr h" "n_prof \<le> length (times h)" "float_vector n_prof (lat h)"
      "float_vector n_prof (lon h)" "float_matrix n_prof n_levels (depth h)"
    by blast
  from wh have d: "dims ds ''N_PROF'' = Some n_prof" "dims ds ''N_LEVELS'' = Some n_levels"
    by (simp_all add: well_formed_header_def)
  have "for_profiles ds h vars [0..<n_prof] [] = Inr []"
    using for_profiles_no_qc_defined [OF no h(2-5) d(2), of "[0..<n_prof]" "[]"] by simp
  with h(1) d(1) show "flatten ds vars = Inr []"
    by (simp add: flatten_def getdim_def)
qed

lemmas flatten_eval = flatten_def read_header_def and_then_def getitem_def getdim_def
  level_body_def new_record_def nth_or_raise_def read_value_def is_accepted_code_def
  lower_def lower_char_def upt_rec vars_to_keep_default_def

theorem absent_qc_array_excludes_variable_witness:
  "variables example_without_psal_qc ''PSAL_QC'' = None \<and>
   requested vars_to_keep_default \<and>
   flatten example_without_psal_qc vars_to_keep_default =
     Inr [[(''float_id'', StrOf (Bytes ''5904297'')), (''date'', Date (Fin 26736)),
           (''latitude'', Float (Fin 0)), (''longitude'', Float (Fin 70)),
           (''depth'', Float (Fin 5)), (''temp'', Float (Fin 28))]] \<and>
   well_formed_header example_without_qc 1 2 \<and>
   flatten example_without_qc vars_to_keep_default = Inr []"
proof -
  have rq: "requested vars_to_keep_default"
    by (simp add: requested_def vars_to_keep_default_def mandatory_fields_def lower_def
        lower_char_def)
  have no: "variables example_without_psal_qc (''PSAL'' @ ''_QC'') = None"
    by (simp add: example_without_psal_qc_def)
  have fl: "flatten example_without_psal_qc vars_to_keep_default =
     Inr [[(''float_id'', StrOf (Bytes ''5904297'')), (''date'', Date (Fin 26736)),
           (''latitude'', Float (Fin 0)), (''longitude'', Float (Fin 70)),
           (''depth'', Float (Fin 5)), (''temp'', Float (Fin 28))]]"
    by (simp add: flatten_eval example_without_psal_qc_def)
  have wh: "well_formed_header example_without_qc 1 2"
    by (simp add: well_formed_header_def has_def example_without_qc_def)
  have none: "\<forall>v \<in> set vars_to_keep_default. variables example_without_qc (v @ ''_QC'') = None"
    by (simp add: vars_to_keep_default_def example_without_qc_def)
  from absent_qc_array_excludes_variable [of "''PSAL''" vars_to_keep_default
      example_without_psal_qc 1 2]
    absent_qc_array_excludes_variable [of "''PSAL''" vars_to_keep_default
      example_without_qc 1 2]
    rq no fl wh none
  show ?thesis by simp
qed


section \<open>Properties of the processing loop\<close>

lemma open_dataset_print_line [simp]:
  "open_dataset netcdf (print_line s w) p = open_dataset netcdf w p"
  by (simp add: open_dataset_def)

lemma open_dataset_stdout [simp]:
  "open_dataset netcdf (w\<lparr>stdout := out\<rparr>) p = open_dataset netcdf w p"
  by (simp add: open_dataset_def)


lemma process_nc_file_files [simp]:
  "files (fst (process_nc_file netcdf p vars w)) = files w"
  by (simp add: process_nc_file_def split: sum.splits)

lemma open_dataset_cong: "files w = files w' \<Longrightarrow> open_dataset netcdf w p = open_dataset netcdf w' p"
  by (simp add: open_dataset_def)




text \<open>
  Only the opening is guarded: an exception raised after it leaves \<open>process_nc_file\<close>
  and ends the loop with it.
\<close>

lemma error_after_opening_ends_the_run:
  "open_dataset netcdf w p = Inr ds \<Longrightarrow> flatten ds vars_to_keep_default = Inl e \<Longrightarrow>
     snd (process_files netcdf (p # rest) (w, all_rows)) = Inl e"
  by (simp add: process_nc_file_def)

lemma yields_nothing_stdout [simp]:
  "yields_nothing netcdf (w\<lparr>stdout := out\<rparr>) f = yields_nothing netcdf w f"
  by (simp add: yields_nothing_def)

lemma process_files_nothing:
  "\<forall>f \<in> set fs. yields_nothing netcdf w f \<Longrightarrow>
     \<exists>out. process_files netcdf fs (w, all_rows) = (w\<lparr>stdout := stdout w @ out\<rparr>, Inr all_rows)"
proof (induction fs arbitrary: w)
  case Nil
  have "w = w\<lparr>stdout := stdout w @ []\<rparr>" by simp
  then show ?case by (metis process_files.simps(1))
next
  case (Cons f fs)
  let ?v = "w\<lparr>stdout := stdout w @ [''Processing: '' @ f]\<rparr>"
  from Cons.prems have y: "yields_nothing netcdf w f" by simp
  have "\<exists>out1. process_nc_file netcdf f vars_to_keep_default ?v =
      (w\<lparr>stdout := stdout w @ out1\<rparr>, Inr [])"
  proof (cases "open_dataset netcdf w f")
    case (Inl e)
    then have "process_nc_file netcdf f vars_to_keep_default ?v =
      (w\<lparr>stdout := stdout w @ [''Processing: '' @ f, ''Error opening '' @ f @ '': '' @ e]\<rparr>,
       Inr [])"
      by (simp add: process_nc_file_def print_line_def)
    then show ?thesis by blast
  next
    case (Inr ds)
    with y have "process_nc_file netcdf f vars_to_keep_default ?v = (?v, Inr [])"
      by (simp add: process_nc_file_def yields_nothing_def)
    then show ?thesis by blast
  qed
  then obtain out1 where p: "process_nc_file netcdf f vars_to_keep_default ?v =
      (w\<lparr>stdout := stdout w @ out1\<rparr>, Inr [])" by blast
  have "\<forall>f \<in> set fs. yields_nothing netcdf (w\<lparr>stdout := stdout w @ out1\<rparr>) f"
    using Cons.prems by simp
  from Cons.IH [OF this] obtain out2 where
    "process_files netcdf fs (w\<lparr>stdout := stdout w @ out1\<rparr>, all_rows) =
       (w\<lparr>stdout := stdout w @ out1 @ out2\<rparr>, Inr all_rows)"
    by auto
  with p have "process_files netcdf (f # fs) (w, all_rows) =
       (w\<lparr>stdout := stdout w @ (out1 @ out2)\<rparr>, Inr all_rows)"
    by (simp add: print_line_def)
  then show ?case by blast
qed

text \<open>
  Claim C6. When every downloaded file gives nothing (it does not open, or it flattens
  to no row), the script prints its message and exits: the delimited file is not
  written and the database is not touched.
\<close>

theorem nothing_processed_exits_before_loader:
  "(\<forall>f \<in> set downloaded_files. yields_nothing netcdf w f) \<longrightarrow>
     fst (steps_F_G netcdf downloaded_files w) = Exited \<and>
     csv_file (snd (steps_F_G netcdf downloaded_files w)) = csv_file w \<and>
     database (snd (steps_F_G netcdf downloaded_files w)) = database w \<and>
     files (snd (steps_F_G netcdf downloaded_files w)) = files w \<and>
     last (stdout (snd (steps_F_G netcdf downloaded_files w))) =
       ''No data was successfully processed. Exiting.''"
proof
  assume "\<forall>f \<in> set downloaded_files. yields_nothing netcdf w f"
  from process_files_nothing [OF this, of "[]"] obtain out where
    "process_files netcdf downloaded_files (w, []) = (w\<lparr>stdout := stdout w @ out\<rparr>, Inr [])"
    by blast
  then have "steps_F_G netcdf downloaded_files w =
      (Exited, w\<lparr>stdout := stdout w @ out @ [''No data was successfully processed. Exiting.'']\<rparr>)"
    by (simp add: steps_F_G_def print_line_def)
  then show "fst (steps_F_G netcdf downloaded_files w) = Exited \<and>
     csv_file (snd (steps_F_G netcdf downloaded_files w)) = csv_file w \<and>
     database (snd (steps_F_G netcdf downloaded_files w)) = database w \<and>
     files (snd (steps_F_G netcdf downloaded_files w)) = files w \<and>
     last (stdout (snd (steps_F_G netcdf downloaded_files w))) =
       ''No data was successfully processed. Exiting.''"
    by simp
qed

theorem nothing_processed_exits_before_loader_witness:
  "yields_nothing example_decoder example_host ''argo_data_downloads/R13857_001.nc'' \<and>
   steps_F_G example_decoder [''argo_data_downloads/R13857_001.nc''] example_host =
     (Exited, example_host\<lparr>stdout :=
        [''Processing: argo_data_downloads/R13857_001.nc'',
         ''Error opening argo_data_downloads/R13857_001.nc: NetCDF: Unknown file format'',
         ''No data was successfully processed. Exiting.'']\<rparr>)"
proof -
  have o: "open_dataset example_decoder example_host ''argo_data_downloads/R13857_001.nc''
     = Inl ''NetCDF: Unknown file format''"
    by (simp add: open_dataset_def example_decoder_def example_host_def)
  then have y: "yields_nothing example_decoder example_host ''argo_data_downloads/R13857_001.nc''"
    by (simp add: yields_nothing_def)
  have s: "steps_F_G example_decoder [''argo_data_downloads/R13857_001.nc''] example_host =
     (Exited, example_host\<lparr>stdout :=
        [''Processing: argo_data_downloads/R13857_001.nc'',
         ''Error opening argo_data_downloads/R13857_001.nc: NetCDF: Unknown file format'',
         ''No data was successfully processed. Exiting.'']\<rparr>)"
  proof -
    have "stdout example_host = []" by (simp add: example_host_def)
    with o show ?thesis
      by (simp add: steps_F_G_def process_nc_file_def print_line_def)
  qed
  from nothing_processed_exits_before_loader [of "[''argo_data_downloads/R13857_001.nc'']"
      example_decoder example_host] y s
  show ?thesis by simp
qed


section \<open>Properties of the loader\<close>

lemma length_stored_rows [simp]: "length (stored_rows ls) = length ls"
  by (simp add: stored_rows_def del: upt_Suc)






section \<open>Properties of the query interface\<close>

text \<open>
  Claim C8. For a question that the agent answers with a response dictionary, the page
  shows the value under the key \<open>output\<close> when the dictionary has one, and exactly the
  fallback sentence when it has none.
\<close>

theorem answer_or_fallback:
  "user_query \<noteq> [] \<and> agent_invoke user_query = Inr response \<longrightarrow>
     on_user_query agent_invoke user_query =
       [Write ''**Answer:**'',
        Markdown (case response ''output'' of
                    None \<Rightarrow> ''Sorry, I couldn't find an answer.''
                  | Some v \<Rightarrow> v)]"
  by (simp add: on_user_query_def dict_get_def)

theorem answer_or_fallback_witness:
  "on_user_query (\<lambda>q. Inr [''input'' \<mapsto> q]) ''How many floats?''
     = [Write ''**Answer:**'', Markdown ''Sorry, I couldn't find an answer.''] \<and>
   on_user_query (\<lambda>q. Inr [''input'' \<mapsto> q, ''output'' \<mapsto> ''42'']) ''How many floats?''
     = [Write ''**Answer:**'', Markdown ''42'']"
  using answer_or_fallback [of "''How many floats?''" "\<lambda>q. Inr [''input'' \<mapsto> q]"
      "[''input'' \<mapsto> ''How many floats?'']"]
    answer_or_fallback [of "''How many floats?''"
      "\<lambda>q. Inr [''input'' \<mapsto> q, ''output'' \<mapsto> ''42'']"
      "[''input'' \<mapsto> ''How many floats?'', ''output'' \<mapsto> ''42'']"]
  by simp

end
